theory Spec2Isabelle
  imports Complex_Main "HOL-Library.AList"
begin

section \<open>PyInteraph: the driver script \<open>pyinteraph.py\<close> and the contracts of its test suite\<close>

text \<open>
  The development embeds the driver \<open>src/pyinteraph.py\<close> and the parts of
  \<open>src/tests/test_libinteract.py\<close> that the properties below talk about. Python
  exceptions are values of the type \<open>error\<close>; a function that can raise returns
  \<open>error + 'a\<close> with \<open>Inl\<close> for the exception. Python's \<open>None\<close> is the HOL
  \<open>None\<close>. Dictionaries are association lists in insertion order, updated with
  \<open>AList.update\<close>. Python floats are modelled as reals.
\<close>

subsection \<open>Exceptions and the exit status\<close>

datatype error =
    SystemExit int
  | ParsingError
  | NoSectionError
  | NoOptionError
  | ValueError
  | TypeError
  | KeyError
  | NameError
  | IndexError
  | LibraryError

text \<open>
  The status of the process: \<open>exit(n)\<close> raises \<open>SystemExit n\<close>; any other exception
  that reaches the top level prints a traceback and gives status 1; a script that runs
  to its end gives status 0.
\<close>

fun exit_status :: "error + 'a \<Rightarrow> int" where
  "exit_status (Inr v) = 0"
| "exit_status (Inl (SystemExit n)) = n"
| "exit_status (Inl e) = 1"

subsection \<open>String methods\<close>

text \<open>Strings are restricted to ASCII: \<open>upper\<close> and \<open>lower\<close> change the 26 letters only.\<close>

definition lowercase_letters :: string where
  "lowercase_letters = ''abcdefghijklmnopqrstuvwxyz''"

definition uppercase_letters :: string where
  "uppercase_letters = ''ABCDEFGHIJKLMNOPQRSTUVWXYZ''"

definition upper_char :: "char \<Rightarrow> char" where
  "upper_char c =
     (case map_of (zip lowercase_letters uppercase_letters) c of Some u \<Rightarrow> u | None \<Rightarrow> c)"

definition lower_char :: "char \<Rightarrow> char" where
  "lower_char c =
     (case map_of (zip uppercase_letters lowercase_letters) c of Some l \<Rightarrow> l | None \<Rightarrow> c)"

definition upper :: "string \<Rightarrow> string" where
  "upper s = map upper_char s"

definition lower :: "string \<Rightarrow> string" where
  "lower s = map lower_char s"

text \<open>The ASCII characters that \<open>str.strip()\<close> removes: codes 9 to 13, 28 to 32.\<close>

definition is_space :: "char \<Rightarrow> bool" where
  "is_space c \<longleftrightarrow>
     c \<in> set [CHR '' '', CHR 0x09, CHR 0x0A, CHR 0x0B, CHR 0x0C, CHR 0x0D,
               CHR 0x1C, CHR 0x1D, CHR 0x1E, CHR 0x1F]"

definition strip :: "string \<Rightarrow> string" where
  "strip s = rev (dropWhile is_space (rev (dropWhile is_space s)))"

text \<open>\<open>s.split(sep)\<close> for a one-character separator: the empty string gives \<open>['']\<close>.\<close>

fun split :: "char \<Rightarrow> string \<Rightarrow> string list" where
  "split sep [] = [[]]"
| "split sep (c # cs) =
     (if c = sep then [] # split sep cs
      else (case split sep cs of
              [] \<Rightarrow> [[c]]
            | w # ws \<Rightarrow> (c # w) # ws))"

subsection \<open>The configuration parser\<close>

text \<open>
  A \<open>ConfigParser\<close> object after \<open>read\<close>: the sections in file order, each with its
  options in file order. The parser stores option names in lower case and section
  names as written. The files have no \<open>DEFAULT\<close> section and no interpolation.
  \<open>cfg.read(fname)\<close> is the parameter \<open>rd\<close> of the functions below: it raises on a
  file that is not in INI format and gives a parser without sections on a file that
  cannot be opened.
\<close>

type_synonym config = "(string \<times> (string \<times> string) list) list"

definition cfg_options :: "config \<Rightarrow> string \<Rightarrow> error + string list" where
  "cfg_options cfg section =
     (case map_of cfg section of
        None \<Rightarrow> Inl NoSectionError
      | Some opts \<Rightarrow> Inr (map fst opts))"

definition cfg_get :: "config \<Rightarrow> string \<Rightarrow> string \<Rightarrow> error + string" where
  "cfg_get cfg section option =
     (case map_of cfg section of
        None \<Rightarrow> Inl NoSectionError
      | Some opts \<Rightarrow>
          (case map_of opts (lower option) of
             None \<Rightarrow> Inl NoOptionError
           | Some v \<Rightarrow> Inr v))"

subsection \<open>List and dictionary methods\<close>

text \<open>
  \<open>xs.remove(x)\<close> changes the list in place and returns \<open>None\<close>: the model returns
  the changed list and the value of the call. Iterating over \<open>None\<close> raises
  \<open>TypeError\<close>.
\<close>

definition list_remove :: "'a \<Rightarrow> 'a list \<Rightarrow> error + ('a list \<times> 'a list option)" where
  "list_remove x xs = (if x \<in> set xs then Inr (remove1 x xs, None) else Inl ValueError)"

definition py_iter :: "'a list option \<Rightarrow> error + 'a list" where
  "py_iter v = (case v of None \<Rightarrow> Inl TypeError | Some xs \<Rightarrow> Inr xs)"

type_synonym ('k, 'v) dict = "('k \<times> 'v) list"

definition dict_get :: "('k, 'v) dict \<Rightarrow> 'k \<Rightarrow> error + 'v" where
  "dict_get d k = (case map_of d k of None \<Rightarrow> Inl KeyError | Some v \<Rightarrow> Inr v)"

definition dict_keys :: "('k, 'v) dict \<Rightarrow> 'k list" where
  "dict_keys d = map fst d"

text \<open>
  \<open>d.update(e)\<close> changes \<open>d\<close> in place and returns \<open>None\<close>: the model returns the
  changed dictionary and the value of the call.
\<close>

definition dict_update :: "('k, 'v) dict \<Rightarrow> ('k, 'v) dict \<Rightarrow> ('k, 'v) dict \<times> ('k, 'v) dict option" where
  "dict_update d e = (fold (\<lambda>(k, v). AList.update k v) e d, None)"

subsection \<open>\<open>parse_cgs_file\<close> of the driver\<close>

definition grps_str :: string where "grps_str = ''CHARGED_GROUPS''"
definition res_str :: string where "res_str = ''RESIDUES''"
definition default_grps_str :: string where "default_grps_str = ''default_charged_groups''"

type_synonym groups = "(string, string list) dict"

text \<open>
  The dictionary comprehension over \<open>charged_groups + default_charged\<close>:
  \<open>{group : [item.strip() for item in cfg.get(grps_str, group).split(",")] ...}\<close>.
\<close>

fun group_definitions_of :: "config \<Rightarrow> string list \<Rightarrow> groups \<Rightarrow> error + groups" where
  "group_definitions_of cfg [] acc = Inr acc"
| "group_definitions_of cfg (g # gs) acc =
     (case cfg_get cfg grps_str g of
        Inl e \<Rightarrow> Inl e
      | Inr v \<Rightarrow> group_definitions_of cfg gs (AList.update g (map strip (split CHR '','' v)) acc))"

text \<open>\<open>{k : d[key k] for k in ks}\<close>, raising \<open>KeyError\<close> at the first missing key.\<close>

fun dict_comprehension :: "groups \<Rightarrow> (string \<Rightarrow> string) \<Rightarrow> string list \<Rightarrow> groups \<Rightarrow> error + groups" where
  "dict_comprehension d key [] acc = Inr acc"
| "dict_comprehension d key (k # ks) acc =
     (case dict_get d (key k) of
        Inl e \<Rightarrow> Inl e
      | Inr v \<Rightarrow> dict_comprehension d key ks (AList.update k v acc))"

text \<open>
  The body of the driver's loop over the residues. The value stored under the
  residue is the value of the call \<open>def_charged_dict.copy().update(charged_groups_dict)\<close>.
\<close>

fun driver_residues :: "config \<Rightarrow> groups \<Rightarrow> string list \<Rightarrow> string list \<Rightarrow>
    (string, groups option) dict \<Rightarrow> error + (string, groups option) dict" where
  "driver_residues cfg group_definitions default_charged [] out = Inr out"
| "driver_residues cfg group_definitions default_charged (r # rs) out =
     (let res = upper r in
      case dict_comprehension group_definitions (\<lambda>k. k) default_charged [] of
        Inl e \<Rightarrow> Inl e
      | Inr def_charged_dict \<Rightarrow>
          (case cfg_get cfg res_str res of
             Inl e \<Rightarrow> Inl e
           | Inr v \<Rightarrow>
               (case dict_comprehension group_definitions lower
                       (filter (\<lambda>item. item \<in> set (dict_keys group_definitions)) (split CHR '','' v)) [] of
                  Inl e \<Rightarrow> Inl e
                | Inr charged_groups_dict \<Rightarrow>
                    driver_residues cfg group_definitions default_charged rs
                      (AList.update res (snd (dict_update def_charged_dict charged_groups_dict)) out))))"

definition parse_cgs_file ::
    "(string \<Rightarrow> error + config) \<Rightarrow> string \<Rightarrow> error + (string, groups option) dict" where
  "parse_cgs_file rd fname =
     (case rd fname of
        Inl e \<Rightarrow> Inl (SystemExit 1)
      | Inr cfg \<Rightarrow>
     (case cfg_options cfg grps_str of
        Inl e \<Rightarrow> Inl e
      | Inr opts \<Rightarrow>
     (case list_remove default_grps_str opts of
        Inl e \<Rightarrow> Inl e
      | Inr (opts', removed) \<Rightarrow>
     (case py_iter removed of
        Inl e \<Rightarrow> Inl e
      | Inr items \<Rightarrow>
     (let charged_groups = map strip items in
      case cfg_get cfg grps_str default_grps_str of
        Inl e \<Rightarrow> Inl e
      | Inr v \<Rightarrow>
     (let default_charged = map strip (split CHR '','' v) in
      case cfg_options cfg res_str of
        Inl e \<Rightarrow> Inl e
      | Inr residues \<Rightarrow>
     (case group_definitions_of cfg (charged_groups @ default_charged) [] of
        Inl e \<Rightarrow> Inl e
      | Inr group_definitions \<Rightarrow>
     (case driver_residues cfg group_definitions default_charged residues [] of
        Inl e \<Rightarrow> Inl (SystemExit 1)
      | Inr out \<Rightarrow> Inr out))))))))"

subsection \<open>\<open>parse_cgs_file\<close> of the test suite\<close>

text \<open>
  The inner loop \<open>for j in this_cgs: if j: out[i][j] = group_definitions[j.lower()]\<close>.
\<close>

fun ref_this_cgs :: "groups \<Rightarrow> string list \<Rightarrow> groups \<Rightarrow> error + groups" where
  "ref_this_cgs group_definitions [] acc = Inr acc"
| "ref_this_cgs group_definitions (j # js) acc =
     (if j \<noteq> [] then
        (case dict_get group_definitions (lower j) of
           Inl e \<Rightarrow> Inl e
         | Inr v \<Rightarrow> ref_this_cgs group_definitions js (AList.update j v acc))
      else ref_this_cgs group_definitions js acc)"

fun ref_residues :: "config \<Rightarrow> groups \<Rightarrow> string list \<Rightarrow> string list \<Rightarrow>
    (string, groups) dict \<Rightarrow> error + (string, groups) dict" where
  "ref_residues cfg group_definitions default_charged [] out = Inr out"
| "ref_residues cfg group_definitions default_charged (r # rs) out =
     (let i = upper r in
      case dict_comprehension group_definitions (\<lambda>k. k) default_charged [] of
        Inl e \<Rightarrow> Inl e
      | Inr defaults \<Rightarrow>
          (case cfg_get cfg res_str i of
             Inl e \<Rightarrow> Inl e
           | Inr v \<Rightarrow>
               (case ref_this_cgs group_definitions (map strip (split CHR '','' v)) defaults of
                  Inl e \<Rightarrow> Inl e
                | Inr groups_of_i \<Rightarrow>
                    ref_residues cfg group_definitions default_charged rs
                      (AList.update i groups_of_i out))))"

text \<open>
  The test suite's parser reads the file twice, the first time outside the
  \<open>try\<close>. Its handlers call \<open>log.error\<close> and \<open>logging.error\<close>, names the test module
  never imports: an exception inside a \<open>try\<close> ends as \<open>NameError\<close>. The second loop
  of the source strips the atom names of the last group again.
\<close>

definition ref_parse_cgs_file ::
    "(string \<Rightarrow> error + config) \<Rightarrow> string \<Rightarrow> error + (string, groups) dict" where
  "ref_parse_cgs_file rd fname =
     (case rd fname of
        Inl e \<Rightarrow> Inl e
      | Inr cfg0 \<Rightarrow>
     (case rd fname of
        Inl e \<Rightarrow> Inl NameError
      | Inr cfg \<Rightarrow>
     (case cfg_options cfg grps_str of
        Inl e \<Rightarrow> Inl e
      | Inr opts \<Rightarrow>
     (case list_remove default_grps_str opts of
        Inl e \<Rightarrow> Inl e
      | Inr (opts', removed) \<Rightarrow>
     (let charged_groups = map strip opts' in
      case cfg_get cfg grps_str default_grps_str of
        Inl e \<Rightarrow> Inl e
      | Inr v \<Rightarrow>
     (let default_charged = map strip (split CHR '','' v) in
      case cfg_options cfg res_str of
        Inl e \<Rightarrow> Inl e
      | Inr residues \<Rightarrow>
     (case group_definitions_of cfg (charged_groups @ default_charged) [] of
        Inl e \<Rightarrow> Inl e
      | Inr gd \<Rightarrow>
     (let i = last (charged_groups @ default_charged) in
      case dict_get gd i of
        Inl e \<Rightarrow> Inl e
      | Inr atoms \<Rightarrow>
     (let group_definitions = AList.update i (map strip atoms) gd in
      case ref_residues cfg group_definitions default_charged residues [] of
        Inl e \<Rightarrow> Inl NameError
      | Inr out \<Rightarrow> Inr out)))))))))"

text \<open>A charged-groups file in the format the two parsers expect.\<close>

definition example_cgs :: config where
  "example_cgs =
     [(''CHARGED_GROUPS'',
         [(''default_charged_groups'', ''cter,nter''),
          (''cter'', ''OT1,OT2''),
          (''nter'', ''N''),
          (''asp_p'', ''OD1, OD2'')]),
      (''RESIDUES'',
         [(''asp'', ''asp_p''),
          (''gly'', '''')])]"

definition example_rd :: "string \<Rightarrow> error + config" where
  "example_rd fname = (if fname = ''charged_groups.ini'' then Inr example_cgs else Inr [])"

subsection \<open>\<open>parse_hbs_file\<close> of the driver\<close>

definition hbs_str :: string where "hbs_str = ''HYDROGEN_BONDS''"
definition acceptors_str :: string where "acceptors_str = ''ACCEPTORS''"
definition donors_str :: string where "donors_str = ''DONORS''"

record hbs =
  ACCEPTORS :: "string list"
  DONORS :: "string list"

text \<open>The file is read twice, the first time outside the \<open>try\<close>.\<close>

definition parse_hbs_file :: "(string \<Rightarrow> error + config) \<Rightarrow> string \<Rightarrow> error + hbs" where
  "parse_hbs_file rd fname =
     (case rd fname of
        Inl e \<Rightarrow> Inl e
      | Inr cfg0 \<Rightarrow>
     (case rd fname of
        Inl e \<Rightarrow> Inl (SystemExit 1)
      | Inr cfg \<Rightarrow>
     (case cfg_get cfg hbs_str acceptors_str of
        Inl e \<Rightarrow> Inl e
      | Inr acceptors \<Rightarrow>
     (case cfg_get cfg hbs_str donors_str of
        Inl e \<Rightarrow> Inl e
      | Inr donors \<Rightarrow>
          Inr \<lparr>ACCEPTORS = map strip (split CHR '','' (strip acceptors)),
               DONORS = map strip (split CHR '','' (strip donors))\<rparr>))))"

subsection \<open>The command line\<close>

text \<open>
  The namespace that \<open>parser.parse_args()\<close> returns. An option whose default is
  \<open>None\<close> has an \<open>option\<close> type. The field \<open>top_file\<close> is the source's \<open>top\<close>.
\<close>

record args =
  top_file :: "string option"
  trj :: "string option"
  ref :: "string option"
  do_sb :: bool
  do_hc :: bool
  do_hb :: bool
  do_kbp :: bool
  hc_reslist :: "string list"
  hc_co :: real
  hc_perco :: real
  hc_dat :: string
  hc_graph :: "string option"
  sb_co :: real
  sb_perco :: real
  sb_dat :: string
  sb_graph :: "string option"
  cgs_file :: string
  cgs_mode :: string
  hb_co :: real
  hb_angle :: real
  hb_dat :: string
  hb_graph :: "string option"
  hb_perco :: real
  hb_class :: string
  hbs_file :: string
  hb_group1 :: "string option"
  hb_group2 :: "string option"
  kbp_ff :: string
  kbp_atomlist :: string
  kbp_dat :: string
  kbp_graph :: "string option"
  kbp_kbt :: real
  ffmasses :: string
  verbose :: bool

definition sbmode_choices :: "string list" where
  "sbmode_choices = [''different_charge'', ''same_charge'', ''all'']"

definition sbmode_default :: string where
  "sbmode_default = ''different_charge''"

definition hbclass_choices :: "string list" where
  "hbclass_choices = [''all'', ''mc-mc'', ''mc-sc'', ''sc-sc'', ''custom'']"

definition hbclass_default :: string where
  "hbclass_default = ''all''"

definition ffmasses_default :: string where
  "ffmasses_default = ''charmm27''"

text \<open>
  An argument declared with \<open>choices\<close>: the default when the option is absent from
  the command line, the given value when it is one of the choices; any other value
  makes the argument parser print its usage and exit with status 2.
\<close>

definition choice_arg :: "string list \<Rightarrow> string \<Rightarrow> string option \<Rightarrow> error + string" where
  "choice_arg choices dflt given =
     (case given of
        None \<Rightarrow> Inr dflt
      | Some v \<Rightarrow> if v \<in> set choices then Inr v else Inl (SystemExit 2))"

text \<open>
  \<open>parse_args\<close> for the three options with \<open>choices\<close>, in the order the script adds
  them: \<open>sb_mode\<close>, \<open>hb_class\<close> and \<open>ff_masses\<close> are the values given on the command
  line (\<open>None\<close> when absent), \<open>masses_files\<close> is the listing of the masses directory.
  The other options come as parsed, in \<open>rest\<close>.
\<close>

definition parse_args ::
    "string list \<Rightarrow> string option \<Rightarrow> string option \<Rightarrow> string option \<Rightarrow> args \<Rightarrow> error + args" where
  "parse_args masses_files sb_mode hb_class_given ff_masses rest =
     (case choice_arg sbmode_choices sbmode_default sb_mode of
        Inl e \<Rightarrow> Inl e
      | Inr m \<Rightarrow>
     (case choice_arg hbclass_choices hbclass_default hb_class_given of
        Inl e \<Rightarrow> Inl e
      | Inr c \<Rightarrow>
     (case choice_arg masses_files ffmasses_default ff_masses of
        Inl e \<Rightarrow> Inl e
      | Inr f \<Rightarrow> Inr (rest\<lparr>cgs_mode := m, hb_class := c, ffmasses := f\<rparr>))))"

subsection \<open>The library and the effects of the script\<close>

type_synonym matrix = "real list list"

datatype identifiers = generateSCIdentifiers | generateCGIdentifiers

datatype fullmatrix_func = SCFullmatrix | CGFullmatrix

text \<open>
  The keyword arguments of the three analysis calls. A keyword that a call does not
  pass is \<open>None\<close> in \<open>ia_reslist\<close>, \<open>ia_mindist_mode\<close> and \<open>ia_cgs\<close>.
\<close>

record ('p, 'u) interact_args =
  ia_identifiers :: identifiers
  ia_pdb :: 'p
  ia_uni :: 'u
  ia_co :: real
  ia_perco :: real
  ia_ffmasses :: string
  ia_fullmatrix :: "fullmatrix_func option"
  ia_reslist :: "string list option"
  ia_mindist :: bool
  ia_mindist_mode :: "string option"
  ia_cgs :: "(string, groups option) dict option"

record ('p, 'u) hbonds_args =
  ha_sel1 :: "string option"
  ha_sel2 :: "string option"
  ha_pdb :: 'p
  ha_uni :: 'u
  ha_distance :: real
  ha_angle :: real
  ha_perco :: real
  ha_perresidue :: bool
  ha_dofullmatrix :: bool
  ha_other_hbs :: hbs

record ('p, 'u) potential_args =
  pa_atomlist :: "(string, string list) dict"
  pa_residues_list :: "string list"
  pa_potential_file :: string
  pa_seq_dist_co :: int
  pa_uni :: 'u
  pa_pdb :: 'p
  pa_dofullmatrix :: bool
  pa_kbT :: real

text \<open>
  What the script takes from outside: the environment, the configuration parser's
  \<open>read\<close>, and the functions of \<open>libinteract\<close>, whose code is not part of the
  script. Each may raise.
\<close>

record ('p, 'u) lib =
  getenv_PYINTERAPH :: "string option"
  isdir :: "string \<Rightarrow> bool"
  listdir :: "string \<Rightarrow> error + string list"
  cfg_read :: "string \<Rightarrow> error + config"
  loadsys :: "string \<Rightarrow> string \<Rightarrow> string \<Rightarrow> error + ('p \<times> 'u)"
  dointeract :: "('p, 'u) interact_args \<Rightarrow> error + (string \<times> matrix option)"
  selectAtoms :: "'u \<Rightarrow> string \<Rightarrow> error + nat list"
  dohbonds :: "('p, 'u) hbonds_args \<Rightarrow> error + (string \<times> matrix option)"
  parse_atomlist :: "string \<Rightarrow> error + (string, string list) dict"
  dopotential :: "('p, 'u) potential_args \<Rightarrow> error + (string \<times> matrix option)"

text \<open>
  The effects of a run, in order: the three trajectory scans and the two ways of
  writing a file, \<open>str2file(string, fname)\<close> and \<open>np.savetxt(fname, X, fmt)\<close>.
\<close>

datatype ('p, 'u) event =
    DoInteract "('p, 'u) interact_args"
  | DoHBonds "('p, 'u) hbonds_args"
  | DoPotential "('p, 'u) potential_args"
  | Str2File string string
  | SaveTxt string matrix string

type_synonym ('p, 'u) run = "(error + unit) \<times> ('p, 'u) event list"

definition str2file :: "string \<Rightarrow> string \<Rightarrow> ('p, 'u) run" where
  "str2file string fname = (Inr (), [Str2File string fname])"

text \<open>\<open>np.savetxt\<close> raises \<open>ValueError\<close> when the file name is \<open>None\<close>.\<close>

definition savetxt :: "string option \<Rightarrow> matrix \<Rightarrow> string \<Rightarrow> ('p, 'u) run" where
  "savetxt fname X fmt =
     (case fname of
        None \<Rightarrow> (Inl ValueError, [])
      | Some f \<Rightarrow> (Inr (), [SaveTxt f X fmt]))"

text \<open>Sequencing: an exception ends the run, with the effects so far.\<close>

definition and_then :: "('p, 'u) run \<Rightarrow> ('p, 'u) run \<Rightarrow> ('p, 'u) run" where
  "and_then r1 r2 =
     (case fst r1 of
        Inl e \<Rightarrow> r1
      | Inr u \<Rightarrow> (fst r2, snd r1 @ snd r2))"

text \<open>The files that exist after a run, of those the run has written.\<close>

datatype content = Text string | Numbers string matrix

fun files_after :: "('p, 'u) event list \<Rightarrow> (string, content) dict \<Rightarrow> (string, content) dict" where
  "files_after [] fs = fs"
| "files_after (Str2File string fname # es) fs = files_after es (AList.update fname (Text string) fs)"
| "files_after (SaveTxt fname X fmt # es) fs = files_after es (AList.update fname (Numbers fmt X) fs)"
| "files_after (e # es) fs = files_after es fs"

subsection \<open>The environment\<close>

definition INSTALL_DIR :: "('p, 'u) lib \<Rightarrow> string" where
  "INSTALL_DIR l =
     (let d0 = (case getenv_PYINTERAPH l of None \<Rightarrow> ''./'' | Some d \<Rightarrow> if d = [] then ''./'' else d);
          d1 = (if \<not> isdir l d0 then ''./'' else d0)
      in d1 @ ''/'')"

definition masses_dir :: "('p, 'u) lib \<Rightarrow> string" where
  "masses_dir l = INSTALL_DIR l @ ''ff_masses''"

text \<open>\<open>os.path.join\<close> of two components on a POSIX system.\<close>

definition os_path_join :: "string \<Rightarrow> string \<Rightarrow> string" where
  "os_path_join a b =
     (if b \<noteq> [] \<and> hd b = CHR ''/'' then b
      else if a = [] \<or> last a = CHR ''/'' then a @ b
      else a @ ''/'' @ b)"

subsection \<open>Hydrophobic contacts\<close>

definition hc_block :: "('p, 'u) lib \<Rightarrow> args \<Rightarrow> 'p \<Rightarrow> 'u \<Rightarrow> ('p, 'u) run" where
  "hc_block l a pdb uni =
     (if do_hc a then
        (let fullmatrix = (if hc_graph a \<noteq> None then Some SCFullmatrix else None);
             call = \<lparr>ia_identifiers = generateSCIdentifiers, ia_pdb = pdb, ia_uni = uni,
                     ia_co = hc_co a, ia_perco = hc_perco a,
                     ia_ffmasses = os_path_join (masses_dir l) (ffmasses a),
                     ia_fullmatrix = fullmatrix, ia_reslist = Some (hc_reslist a),
                     ia_mindist = False, ia_mindist_mode = None, ia_cgs = None\<rparr>
         in case dointeract l call of
              Inl e \<Rightarrow> (Inl e, [DoInteract call])
            | Inr (str_out, hc_mat_out) \<Rightarrow>
                and_then (Inr (), [DoInteract call])
               (and_then (str2file str_out (hc_dat a))
                  (case hc_mat_out of
                     None \<Rightarrow> (Inr (), [])
                   | Some m \<Rightarrow> savetxt (hc_graph a) m ''%.1f'')))
      else (Inr (), []))"

subsection \<open>Salt bridges\<close>

text \<open>The \<open>if\<close>/\<open>elif\<close> chain that renames the mode for the library.\<close>

definition translate_cgs_mode :: "string \<Rightarrow> string" where
  "translate_cgs_mode m =
     (if m = ''same_charge'' then ''same''
      else if m = ''different_charge'' then ''diff''
      else if m = ''all'' then ''both''
      else m)"

text \<open>The salt-bridges section after its call of \<open>parse_cgs_file\<close>.\<close>

definition sb_analysis ::
    "('p, 'u) lib \<Rightarrow> args \<Rightarrow> 'p \<Rightarrow> 'u \<Rightarrow> (string, groups option) dict \<Rightarrow> ('p, 'u) run" where
  "sb_analysis l a pdb uni cgs =
     (let mode = translate_cgs_mode (cgs_mode a);
          fullmatrix = (if sb_graph a \<noteq> None then Some CGFullmatrix else None);
          call = \<lparr>ia_identifiers = generateCGIdentifiers, ia_pdb = pdb, ia_uni = uni,
                  ia_co = sb_co a, ia_perco = sb_perco a,
                  ia_ffmasses = os_path_join (masses_dir l) (ffmasses a),
                  ia_fullmatrix = fullmatrix, ia_reslist = None,
                  ia_mindist = True, ia_mindist_mode = Some mode, ia_cgs = Some cgs\<rparr>
      in case dointeract l call of
           Inl e \<Rightarrow> (Inl e, [DoInteract call])
         | Inr (str_out, sb_mat_out) \<Rightarrow>
             and_then (Inr (), [DoInteract call])
            (and_then (str2file str_out (sb_dat a))
               (case sb_mat_out of
                  None \<Rightarrow> (Inr (), [])
                | Some m \<Rightarrow> savetxt (sb_graph a) m ''%.1f'')))"

definition sb_block :: "('p, 'u) lib \<Rightarrow> args \<Rightarrow> 'p \<Rightarrow> 'u \<Rightarrow> ('p, 'u) run" where
  "sb_block l a pdb uni =
     (if do_sb a then
        (case parse_cgs_file (cfg_read l) (cgs_file a) of
           Inl e \<Rightarrow> (Inl e, [])
         | Inr cgs \<Rightarrow> sb_analysis l a pdb uni cgs)
      else (Inr (), []))"

subsection \<open>Hydrogen bonds\<close>

definition mc_sel :: string where
  "mc_sel = ''backbone or name H or name H1 or name H2 or name H3 or name O1 or name O2 or name OXT''"

definition sc_sel :: string where
  "sc_sel = ''protein and not ('' @ mc_sel @ '')''"

text \<open>
  The class in effect: two custom groups on the command line switch the class to
  \<open>custom\<close>, with a warning.
\<close>

definition effective_hb_class :: "args \<Rightarrow> string" where
  "effective_hb_class a =
     (if (hb_group1 a \<noteq> None \<and> hb_group2 a \<noteq> None) \<and> hb_class a \<noteq> ''custom''
      then ''custom'' else hb_class a)"

text \<open>
  The checks of the class \<open>custom\<close>: both groups defined, both selections valid, both
  selections with at least one atom. Every failure is \<open>exit(1)\<close>.
\<close>

definition check_custom_groups :: "('p, 'u) lib \<Rightarrow> args \<Rightarrow> 'u \<Rightarrow> error + unit" where
  "check_custom_groups l a uni =
     (case (hb_group1 a, hb_group2 a) of
        (Some g1, Some g2) \<Rightarrow>
          (case selectAtoms l uni g1 of
             Inl e \<Rightarrow> Inl (SystemExit 1)
           | Inr hb_sel1 \<Rightarrow>
          (case selectAtoms l uni g2 of
             Inl e \<Rightarrow> Inl (SystemExit 1)
           | Inr hb_sel2 \<Rightarrow>
               if length hb_sel1 = 0 then Inl (SystemExit 1)
               else if length hb_sel2 = 0 then Inl (SystemExit 1)
               else Inr ()))
      | _ \<Rightarrow> Inl (SystemExit 1))"

text \<open>The two groups handed to the library, by class.\<close>

definition hb_groups :: "args \<Rightarrow> string option \<times> string option" where
  "hb_groups a =
     (let c = effective_hb_class a in
      if c = ''custom'' then (hb_group1 a, hb_group2 a)
      else if c = ''all'' then (Some ''protein'', Some ''protein'')
      else if c = ''mc-mc'' then (Some mc_sel, Some mc_sel)
      else if c = ''sc-sc'' then (Some sc_sel, Some sc_sel)
      else if c = ''mc-sc'' then (Some mc_sel, Some sc_sel)
      else (hb_group1 a, hb_group2 a))"

definition hb_block :: "('p, 'u) lib \<Rightarrow> args \<Rightarrow> 'p \<Rightarrow> 'u \<Rightarrow> ('p, 'u) run" where
  "hb_block l a pdb uni =
     (if do_hb a then
        (case (if effective_hb_class a = ''custom'' then check_custom_groups l a uni else Inr ()) of
           Inl e \<Rightarrow> (Inl e, [])
         | Inr u \<Rightarrow>
        (case parse_hbs_file (cfg_read l) (hbs_file a) of
           Inl e \<Rightarrow> (Inl (SystemExit 1), [])
         | Inr hbs \<Rightarrow>
        (let fullmatrix = (hb_graph a \<noteq> None);
             perresidue = False;
             call = \<lparr>ha_sel1 = fst (hb_groups a), ha_sel2 = snd (hb_groups a),
                     ha_pdb = pdb, ha_uni = uni,
                     ha_distance = hb_co a, ha_angle = hb_angle a, ha_perco = hb_perco a,
                     ha_perresidue = perresidue, ha_dofullmatrix = fullmatrix,
                     ha_other_hbs = hbs\<rparr>
         in case dohbonds l call of
              Inl e \<Rightarrow> (Inl e, [DoHBonds call])
            | Inr (str_out, hb_mat_out) \<Rightarrow>
                and_then (Inr (), [DoHBonds call])
               (and_then (str2file str_out (hb_dat a))
                  (case hb_mat_out of
                     None \<Rightarrow> (Inr (), [])
                   | Some m \<Rightarrow> savetxt (hb_graph a) m ''%.1f'')))))
      else (Inr (), []))"

subsection \<open>Statistical potential\<close>

definition kbp_residues_list :: "string list" where
  "kbp_residues_list =
     [''ALA'', ''ARG'', ''ASN'', ''ASP'', ''CYS'', ''GLN'', ''GLU'', ''HIS'', ''ILE'',
      ''LEU'', ''LYS'', ''MET'', ''PHE'', ''PRO'', ''SER'', ''THR'', ''TRP'', ''TYR'', ''VAL'']"

definition kbp_seq_dist_co :: int where
  "kbp_seq_dist_co = 0"

definition kbp_block :: "('p, 'u) lib \<Rightarrow> args \<Rightarrow> 'p \<Rightarrow> 'u \<Rightarrow> ('p, 'u) run" where
  "kbp_block l a pdb uni =
     (if do_kbp a then
        (case parse_atomlist l (kbp_atomlist a) of
           Inl e \<Rightarrow> (Inl e, [])
         | Inr atomlist \<Rightarrow>
        (let fullmatrix = (kbp_graph a \<noteq> None);
             call = \<lparr>pa_atomlist = atomlist, pa_residues_list = kbp_residues_list,
                     pa_potential_file = kbp_ff a, pa_seq_dist_co = kbp_seq_dist_co,
                     pa_uni = uni, pa_pdb = pdb, pa_dofullmatrix = fullmatrix,
                     pa_kbT = kbp_kbt a\<rparr>
         in case dopotential l call of
              Inl e \<Rightarrow> (Inl e, [DoPotential call])
            | Inr (str_out, mat_out) \<Rightarrow>
                and_then (Inr (), [DoPotential call])
               (and_then (str2file str_out (kbp_dat a))
                  (case mat_out of
                     None \<Rightarrow> (Inr (), [])
                   | Some m \<Rightarrow> savetxt (kbp_graph a) m ''%.3f''))))
      else (Inr (), []))"

subsection \<open>The script\<close>

text \<open>
  The four analyses run in the order of the source, after the systems are loaded.
  \<open>loadsys\<close> raising \<open>ValueError\<close> is \<open>exit(1)\<close>; any other exception of it goes up.
\<close>

definition analyses :: "('p, 'u) lib \<Rightarrow> args \<Rightarrow> 'p \<Rightarrow> 'u \<Rightarrow> ('p, 'u) run" where
  "analyses l a pdb uni =
     and_then (hc_block l a pdb uni)
    (and_then (sb_block l a pdb uni)
    (and_then (hb_block l a pdb uni)
              (kbp_block l a pdb uni)))"

definition script :: "('p, 'u) lib \<Rightarrow> args \<Rightarrow> ('p, 'u) run" where
  "script l a =
     (case (top_file a, trj a) of
        (Some top', Some trj') \<Rightarrow>
          (let ref' = (case ref a of None \<Rightarrow> top' | Some r \<Rightarrow> r) in
           case loadsys l ref' top' trj' of
             Inl e \<Rightarrow> (if e = ValueError then (Inl (SystemExit 1), []) else (Inl e, []))
           | Inr (pdb, uni) \<Rightarrow> analyses l a pdb uni)
      | _ \<Rightarrow> (Inl (SystemExit 1), []))"

text \<open>
  The whole program: the listing of the masses directory and the argument parser come
  before the script.
\<close>

definition pyinteraph ::
    "('p, 'u) lib \<Rightarrow> string option \<Rightarrow> string option \<Rightarrow> string option \<Rightarrow> args \<Rightarrow> ('p, 'u) run" where
  "pyinteraph l sb_mode hb_class_given ff_masses rest =
     (case listdir l (masses_dir l) of
        Inl e \<Rightarrow> (Inl e, [])
      | Inr masses_files \<Rightarrow>
     (case parse_args masses_files sb_mode hb_class_given ff_masses rest of
        Inl e \<Rightarrow> (Inl e, [])
      | Inr a \<Rightarrow> script l a))"

subsection \<open>Projections of a run\<close>

fun interact_calls :: "('p, 'u) event list \<Rightarrow> ('p, 'u) interact_args list" where
  "interact_calls [] = []"
| "interact_calls (DoInteract c # es) = c # interact_calls es"
| "interact_calls (e # es) = interact_calls es"

fun hbonds_calls :: "('p, 'u) event list \<Rightarrow> ('p, 'u) hbonds_args list" where
  "hbonds_calls [] = []"
| "hbonds_calls (DoHBonds c # es) = c # hbonds_calls es"
| "hbonds_calls (e # es) = hbonds_calls es"

fun potential_calls :: "('p, 'u) event list \<Rightarrow> ('p, 'u) potential_args list" where
  "potential_calls [] = []"
| "potential_calls (DoPotential c # es) = c # potential_calls es"
| "potential_calls (e # es) = potential_calls es"

subsection \<open>The sparse table of \<open>libinteract\<close>\<close>

text \<open>
  The class \<open>Sparse\<close> lives in \<open>libinteract\<close>; the test suite fixes its
  contract in \<open>TestSparse\<close>. The values of a bin record are strings or numbers.
\<close>

datatype pyval = Str string | Num real

record sparse =
  r1 :: real
  r2 :: real
  p1_1 :: real
  p1_2 :: real
  p2_1 :: real
  p2_2 :: real
  cutoff :: real
  step :: real
  total :: real
  num :: real
  bins :: "(string, pyval) dict"

text \<open>
  Modelled from the spec: the constructor \<open>Sparse.__init__\<close> of \<open>libinteract\<close>,
  which is not among the sources. The ten values of a record of the potential file
  are, in order, \<open>r1\<close>, \<open>r2\<close>, the four reference-probability parameters, the cutoff,
  the inverse step, the total observation count and the populated-bin count; the
  bin mapping starts empty. The test \<open>test_Sparse_constructor\<close> compares the 7th
  value with \<open>cutoff**2\<close> and the 8th with \<open>1.0 / step\<close>: the record holds the squared
  cutoff, and the object its square root. A list shorter than ten raises
  \<open>IndexError\<close>. For a negative 7th or a zero 8th value the floats are \<open>nan\<close> and
  \<open>inf\<close>, which the reals do not have: the properties below leave these records out.
\<close>

definition Sparse :: "real list \<Rightarrow> error + sparse" where
  "Sparse sparse_list =
     (if length sparse_list < 10 then Inl IndexError
      else Inr \<lparr>r1 = sparse_list ! 0, r2 = sparse_list ! 1,
                p1_1 = sparse_list ! 2, p1_2 = sparse_list ! 3,
                p2_1 = sparse_list ! 4, p2_2 = sparse_list ! 5,
                cutoff = sqrt (sparse_list ! 6), step = 1 / (sparse_list ! 7),
                total = sparse_list ! 8, num = sparse_list ! 9, bins = []\<rparr>)"

text \<open>
  The object as the specification words it, with the 7th value itself as the cutoff
  radius; for comparison with \<open>Sparse\<close>.
\<close>

definition Sparse_as_specified :: "real list \<Rightarrow> sparse" where
  "Sparse_as_specified sparse_list =
     \<lparr>r1 = sparse_list ! 0, r2 = sparse_list ! 1,
      p1_1 = sparse_list ! 2, p1_2 = sparse_list ! 3,
      p2_1 = sparse_list ! 4, p2_2 = sparse_list ! 5,
      cutoff = sparse_list ! 6, step = 1 / (sparse_list ! 7),
      total = sparse_list ! 8, num = sparse_list ! 9, bins = []\<rparr>"

text \<open>
  \<open>numpy.testing.assert_almost_equal\<close> on two arrays: same length, and every pair
  of elements closer than \<open>1.5 * 10**(-decimal)\<close>.
\<close>

definition assert_almost_equal :: "real list \<Rightarrow> real list \<Rightarrow> nat \<Rightarrow> bool" where
  "assert_almost_equal actual desired decimal \<longleftrightarrow>
     list_all2 (\<lambda>a d. \<bar>d - a\<bar> < 1.5 / 10 ^ decimal) actual desired"

text \<open>The fixture \<open>sparse_list\<close>, \<open>np.arange(0, 10)\<close>, and the test of the constructor.\<close>

definition sparse_list :: "real list" where
  "sparse_list = [0, 1, 2, 3, 4, 5, 6, 7, 8, 9]"

definition test_Sparse_constructor :: "real list \<Rightarrow> sparse \<Rightarrow> bool" where
  "test_Sparse_constructor lst sparse_obj \<longleftrightarrow>
     assert_almost_equal
       [r1 sparse_obj, r2 sparse_obj, p1_1 sparse_obj, p1_2 sparse_obj,
        p2_1 sparse_obj, p2_2 sparse_obj, (cutoff sparse_obj)\<^sup>2, 1.0 / step sparse_obj,
        total sparse_obj, num sparse_obj]
       lst 10"

text \<open>\<open>''.join(xs)\<close>: every element has to be a string.\<close>

fun str_join :: "pyval list \<Rightarrow> error + string" where
  "str_join [] = Inr []"
| "str_join (Str s # xs) = (case str_join xs of Inl e \<Rightarrow> Inl e | Inr t \<Rightarrow> Inr (s @ t))"
| "str_join (Num x # xs) = Inl TypeError"

text \<open>
  Modelled from the spec: the method \<open>Sparse.add_bin\<close> of \<open>libinteract\<close>, which is
  not among the sources. The bin mapping is keyed by the concatenation of the first
  four elements of the bin record and holds its fifth element, as
  \<open>test_add_bin\<close> looks it up: \<open>bins[''.join(bin[0:4])] = bin[4]\<close>. The right-hand
  side is evaluated first: a record shorter than five raises \<open>IndexError\<close>.
\<close>

definition add_bin :: "pyval list \<Rightarrow> sparse \<Rightarrow> error + sparse" where
  "add_bin bin s =
     (if length bin < 5 then Inl IndexError
      else (case str_join (take 4 bin) of
              Inl e \<Rightarrow> Inl e
            | Inr key \<Rightarrow> Inr (s\<lparr>bins := AList.update key (bin ! 4) (bins s)\<rparr>)))"

text \<open>The fixture \<open>sparse_bin\<close>.\<close>

definition sparse_bin :: "pyval list" where
  "sparse_bin = [Str ''a'', Str ''b'', Str ''c'', Str ''d'', Num 1]"

subsection \<open>The sequence-distance cutoff of the statistical potential\<close>

text \<open>
  Modelled from the spec: the test of \<open>do_potential\<close> in \<open>libinteract\<close>, which is not
  among the sources, on the residue numbers of a pair: the pair is scored when
  \<open>|resnum_i - resnum_j| > seq_dist_co\<close>.
\<close>

definition seq_dist_ok :: "int \<Rightarrow> int \<Rightarrow> int \<Rightarrow> bool" where
  "seq_dist_ok seq_dist_co resnum_i resnum_j \<longleftrightarrow> \<bar>resnum_i - resnum_j\<bar> > seq_dist_co"

subsection \<open>A run of the program, for the examples\<close>

definition example_hbs :: config where
  "example_hbs =
     [(''HYDROGEN_BONDS'',
         [(''acceptors'', ''O, OD1, OD2''),
          (''donors'', ''N, NE'')])]"

definition example_matrix :: matrix where
  "example_matrix = [[0, 80], [80, 0]]"

definition example_lib :: "(unit, unit) lib" where
  "example_lib =
     \<lparr>getenv_PYINTERAPH = Some ''/opt/pyinteraph'',
      isdir = (\<lambda>d. True),
      listdir = (\<lambda>d. Inr [''charmm27'']),
      cfg_read = (\<lambda>f. if f = ''charged_groups.ini'' then Inr example_cgs
                       else if f = ''hydrogen_bonds.ini'' then Inr example_hbs
                       else if f = ''broken.ini'' then Inl ParsingError
                       else Inr []),
      loadsys = (\<lambda>r t j. Inr ((), ())),
      dointeract = (\<lambda>c. Inr (''A-3ALA A-7LEU 80.0'',
                      case ia_fullmatrix c of None \<Rightarrow> None | Some f \<Rightarrow> Some example_matrix)),
      selectAtoms = (\<lambda>u sel. if sel = ''resname XXX'' then Inr [] else Inr [0, 1, 2]),
      dohbonds = (\<lambda>c. Inr (''A-3ALA A-7LEU N O 80.0'',
                    if ha_dofullmatrix c then Some example_matrix else None)),
      parse_atomlist = (\<lambda>f. Inr [(''ALA'', [''N'', ''CA'', ''C'', ''O'', ''CB''])]),
      dopotential = (\<lambda>c. Inr (''A-3ALA A-7LEU -1.250'',
                       if pa_dofullmatrix c then Some example_matrix else None))\<rparr>"

definition example_args :: args where
  "example_args =
     \<lparr>top_file = Some ''sim.prot.gro'', trj = Some ''traj.xtc'', ref = Some ''sim.prot.A.pdb'',
      do_sb = False, do_hc = True, do_hb = True, do_kbp = True,
      hc_reslist = [''ALA'', ''VAL'', ''LEU'', ''ILE'', ''PHE'', ''PRO'', ''TRP'', ''MET''],
      hc_co = 5.0, hc_perco = 0.0, hc_dat = ''hydrophobic-clusters.dat'',
      hc_graph = Some ''hc-graph.dat'',
      sb_co = 4.5, sb_perco = 0.0, sb_dat = ''salt-bridges.dat'', sb_graph = Some ''sb-graph.dat'',
      cgs_file = ''charged_groups.ini'', cgs_mode = ''different_charge'',
      hb_co = 3.5, hb_angle = 120.0, hb_dat = ''hydrogen-bonds.dat'',
      hb_graph = Some ''hb-graph.dat'', hb_perco = 0.0, hb_class = ''all'',
      hbs_file = ''hydrogen_bonds.ini'', hb_group1 = None, hb_group2 = None,
      kbp_ff = ''ff.S050.bin64'', kbp_atomlist = ''kbp_atomlist'', kbp_dat = ''kb-potential.dat'',
      kbp_graph = Some ''kbp-graph.dat'', kbp_kbt = 1.0,
      ffmasses = ''charmm27'', verbose = False\<rparr>"

subsection \<open>Conditions on the inputs\<close>


text \<open>
  A charged-groups file with a configuration error: not in INI format, without the
  section \<open>CHARGED_GROUPS\<close>, or without the key \<open>default_charged_groups\<close>.
\<close>

definition cgs_file_bad :: "(string \<Rightarrow> error + config) \<Rightarrow> string \<Rightarrow> bool" where
  "cgs_file_bad rd fname =
     (case rd fname of
        Inl e \<Rightarrow> True
      | Inr cfg \<Rightarrow>
          (case cfg_options cfg grps_str of
             Inl e \<Rightarrow> True
           | Inr opts \<Rightarrow> default_grps_str \<notin> set opts))"

text \<open>
  Hydrophobic contacts and salt bridges together, with a charged-groups file that is
  not in INI format.
\<close>

definition failing_args :: args where
  "failing_args =
     example_args\<lparr>do_sb := True, do_hb := False, do_kbp := False, cgs_file := ''broken.ini''\<rparr>"

definition example_sb_args :: args where
  "example_sb_args = example_args\<lparr>do_sb := True, cgs_mode := ''all''\<rparr>"


text \<open>The names of the files that a run writes, in order.\<close>

fun written :: "('p, 'u) event list \<Rightarrow> string list" where
  "written [] = []"
| "written (Str2File string fname # es) = fname # written es"
| "written (SaveTxt fname X fmt # es) = fname # written es"
| "written (e # es) = written es"

section \<open>Properties\<close>

subsection \<open>Evaluation of the examples\<close>

lemmas string_eval = lower_def upper_def lower_char_def upper_char_def
  lowercase_letters_def uppercase_letters_def strip_def is_space_def

lemmas cgs_eval = example_rd_def example_cgs_def cfg_options_def cfg_get_def grps_str_def
  res_str_def default_grps_str_def list_remove_def py_iter_def dict_get_def Let_def

lemmas block_defs = and_then_def str2file_def savetxt_def Let_def

lemmas run_eval = example_lib_def example_args_def example_hbs_def example_matrix_def
  script_def analyses_def hc_block_def sb_block_def hb_block_def kbp_block_def block_defs
  parse_hbs_file_def cfg_get_def hbs_str_def acceptors_str_def donors_str_def
  effective_hb_class_def hb_groups_def pyinteraph_def parse_args_def choice_arg_def
  sbmode_choices_def sbmode_default_def hbclass_choices_def hbclass_default_def
  ffmasses_default_def

subsection \<open>Sequencing and the projections of a run\<close>

lemma snd_and_then_cases:
  "snd (and_then p q) = snd p \<or> snd (and_then p q) = snd p @ snd q"
  by (simp add: and_then_def split: sum.splits)

lemma hbonds_calls_append: "hbonds_calls (xs @ ys) = hbonds_calls xs @ hbonds_calls ys"
  by (induction xs rule: hbonds_calls.induct) simp_all

lemma potential_calls_append:
  "potential_calls (xs @ ys) = potential_calls xs @ potential_calls ys"
  by (induction xs rule: potential_calls.induct) simp_all

subsection \<open>The charged-groups parsers\<close>

lemma parse_cgs_file_never_returns: "parse_cgs_file rd fname \<noteq> Inr out"
  by (auto simp: parse_cgs_file_def list_remove_def py_iter_def
           split: sum.splits prod.splits if_splits option.splits)

text \<open>
  C1. On a well-formed charged-groups file the driver's \<open>parse_cgs_file\<close> should
  return the dictionary that the parser of the test suite computes, every
  residue with a dictionary of its charged groups. On the file \<open>example_cgs\<close> the
  parser of the test suite returns that dictionary, and the driver's raises
  \<open>TypeError\<close>: it iterates over the value of \<open>list.remove\<close>, which is \<open>None\<close>.
\<close>

theorem parse_cgs_file_raises_on_example:
  "parse_cgs_file example_rd ''charged_groups.ini'' = Inl TypeError \<and>
   ref_parse_cgs_file example_rd ''charged_groups.ini'' =
     Inr [(''ASP'', [(''cter'', [''OT1'', ''OT2'']), (''nter'', [''N'']),
                     (''asp_p'', [''OD1'', ''OD2''])]),
          (''GLY'', [(''cter'', [''OT1'', ''OT2'']), (''nter'', [''N''])])]"
  by (simp add: parse_cgs_file_def ref_parse_cgs_file_def cgs_eval string_eval)

subsection \<open>Residue-level aggregation of hydrogen bonds\<close>

lemma hbonds_calls_hc_block: "hbonds_calls (snd (hc_block l a pdb uni)) = []"
  by (simp add: hc_block_def block_defs split: sum.splits option.splits prod.splits)

lemma hbonds_calls_sb_analysis: "hbonds_calls (snd (sb_analysis l a pdb uni cgs)) = []"
  by (simp add: sb_analysis_def block_defs split: sum.splits option.splits prod.splits)

lemma hbonds_calls_sb_block: "hbonds_calls (snd (sb_block l a pdb uni)) = []"
  by (simp add: sb_block_def hbonds_calls_sb_analysis split: sum.splits)

lemma hbonds_calls_kbp_block: "hbonds_calls (snd (kbp_block l a pdb uni)) = []"
  by (simp add: kbp_block_def block_defs split: sum.splits option.splits prod.splits)

lemma hbonds_calls_hb_block:
  "c \<in> set (hbonds_calls (snd (hb_block l a pdb uni))) \<Longrightarrow> \<not> ha_perresidue c"
  by (auto simp: hb_block_def block_defs split: sum.splits option.splits prod.splits if_splits)

lemma hbonds_calls_and_then:
  "set (hbonds_calls (snd (and_then p q))) \<subseteq>
     set (hbonds_calls (snd p)) \<union> set (hbonds_calls (snd q))"
  using snd_and_then_cases [of p q] by (auto simp: hbonds_calls_append)

lemma hbonds_calls_analyses:
  assumes c: "c \<in> set (hbonds_calls (snd (analyses l a pdb uni)))"
  shows "\<not> ha_perresidue c"
proof -
  let ?k = "kbp_block l a pdb uni"
  let ?h = "and_then (hb_block l a pdb uni) ?k"
  let ?s = "and_then (sb_block l a pdb uni) ?h"
  from c have "c \<in> set (hbonds_calls (snd (hc_block l a pdb uni))) \<union> set (hbonds_calls (snd ?s))"
    using hbonds_calls_and_then [of "hc_block l a pdb uni" ?s] by (auto simp: analyses_def)
  then have "c \<in> set (hbonds_calls (snd ?s))"
    by (simp add: hbonds_calls_hc_block)
  then have "c \<in> set (hbonds_calls (snd ?h))"
    using hbonds_calls_and_then [of "sb_block l a pdb uni" ?h]
    by (auto simp: hbonds_calls_sb_block)
  then have "c \<in> set (hbonds_calls (snd (hb_block l a pdb uni)))"
    using hbonds_calls_and_then [of "hb_block l a pdb uni" ?k]
    by (auto simp: hbonds_calls_kbp_block)
  then show ?thesis by (rule hbonds_calls_hb_block)
qed

lemma hbonds_calls_script:
  "c \<in> set (hbonds_calls (snd (script l a))) \<Longrightarrow> \<not> ha_perresidue c"
  by (auto simp: script_def Let_def hbonds_calls_analyses
           split: option.splits sum.splits if_splits prod.splits)

text \<open>
  C10. Whatever the command line, every call of the hydrogen-bond analysis that the
  program makes has \<open>perresidue = False\<close>: the aggregation by residue cannot be
  switched on from the command line.
\<close>

theorem hbonds_never_perresidue:
  "\<forall>c \<in> set (hbonds_calls (snd (pyinteraph l sb_mode hb_class_given ff_masses rest))).
     ha_perresidue c = False"
  by (auto simp: pyinteraph_def hbonds_calls_script split: sum.splits)

theorem hbonds_never_perresidue_witness:
  "hbonds_calls (snd (pyinteraph example_lib None None None example_args)) \<noteq> [] \<and>
   map ha_perresidue (hbonds_calls (snd (pyinteraph example_lib None None None example_args)))
     = [False]"
  using hbonds_never_perresidue [of example_lib None None None example_args]
  by (simp add: run_eval string_eval)

subsection \<open>The sequence-distance cutoff\<close>

lemma potential_calls_hc_block: "potential_calls (snd (hc_block l a pdb uni)) = []"
  by (simp add: hc_block_def block_defs split: sum.splits option.splits prod.splits)

lemma potential_calls_sb_block: "potential_calls (snd (sb_block l a pdb uni)) = []"
  by (simp add: sb_block_def sb_analysis_def block_defs split: sum.splits option.splits prod.splits)

lemma potential_calls_hb_block: "potential_calls (snd (hb_block l a pdb uni)) = []"
  by (simp add: hb_block_def block_defs split: sum.splits option.splits prod.splits)

lemma potential_calls_kbp_block:
  "c \<in> set (potential_calls (snd (kbp_block l a pdb uni))) \<Longrightarrow> pa_seq_dist_co c = 0"
  by (auto simp: kbp_block_def kbp_seq_dist_co_def block_defs
           split: sum.splits option.splits prod.splits if_splits)

lemma potential_calls_and_then:
  "set (potential_calls (snd (and_then p q))) \<subseteq>
     set (potential_calls (snd p)) \<union> set (potential_calls (snd q))"
  using snd_and_then_cases [of p q] by (auto simp: potential_calls_append)

lemma potential_calls_analyses:
  assumes c: "c \<in> set (potential_calls (snd (analyses l a pdb uni)))"
  shows "pa_seq_dist_co c = 0"
proof -
  let ?k = "kbp_block l a pdb uni"
  let ?h = "and_then (hb_block l a pdb uni) ?k"
  let ?s = "and_then (sb_block l a pdb uni) ?h"
  from c have "c \<in> set (potential_calls (snd ?s))"
    using potential_calls_and_then [of "hc_block l a pdb uni" ?s]
    by (auto simp: analyses_def potential_calls_hc_block)
  then have "c \<in> set (potential_calls (snd ?h))"
    using potential_calls_and_then [of "sb_block l a pdb uni" ?h]
    by (auto simp: potential_calls_sb_block)
  then have "c \<in> set (potential_calls (snd ?k))"
    using potential_calls_and_then [of "hb_block l a pdb uni" ?k]
    by (auto simp: potential_calls_hb_block)
  then show ?thesis by (rule potential_calls_kbp_block)
qed

lemma potential_calls_script:
  "c \<in> set (potential_calls (snd (script l a))) \<Longrightarrow> pa_seq_dist_co c = 0"
  by (auto simp: script_def Let_def potential_calls_analyses
           split: option.splits sum.splits if_splits prod.splits)

lemma seq_dist_ok_zero: "seq_dist_ok 0 i j \<longleftrightarrow> i \<noteq> j"
  by (auto simp: seq_dist_ok_def)

text \<open>
  C8. Whatever the command line, every call of the statistical-potential analysis
  that the program makes has the sequence-distance cutoff 0; with this cutoff the
  test on the residue numbers leaves out a pair only when the two numbers are
  equal, a residue paired with itself.
\<close>

theorem potential_seq_dist_co_zero:
  "\<forall>c \<in> set (potential_calls (snd (pyinteraph l sb_mode hb_class_given ff_masses rest))).
     pa_seq_dist_co c = 0 \<and>
     (seq_dist_ok (pa_seq_dist_co c) resnum_i resnum_j \<longleftrightarrow> resnum_i \<noteq> resnum_j)"
  by (auto simp: pyinteraph_def seq_dist_ok_zero dest!: potential_calls_script split: sum.splits)

theorem potential_seq_dist_co_zero_witness:
  "map pa_seq_dist_co
     (potential_calls (snd (pyinteraph example_lib None None None example_args))) = [0] \<and>
   seq_dist_ok 0 3 4 \<and> \<not> seq_dist_ok 0 3 3"
  using potential_seq_dist_co_zero [of example_lib None None None example_args 3 4]
    potential_seq_dist_co_zero [of example_lib None None None example_args 3 3]
  by (simp add: run_eval string_eval kbp_seq_dist_co_def)

subsection \<open>The formats of the matrix files\<close>

text \<open>
  C6. A matrix file that the hydrophobic-contacts, the salt-bridges or the
  hydrogen-bonds section writes is the graph file of that section, written with the
  format \<open>%.1f\<close>, one decimal place for each value; the matrix file of the
  statistical potential is written with \<open>%.3f\<close>, three decimal places.
\<close>

theorem matrix_formats:
  "(SaveTxt f X fmt \<in> set (snd (hc_block l a pdb uni)) \<longrightarrow> fmt = ''%.1f'' \<and> hc_graph a = Some f) \<and>
   (SaveTxt f X fmt \<in> set (snd (sb_analysis l a pdb uni cgs)) \<longrightarrow> fmt = ''%.1f'' \<and> sb_graph a = Some f) \<and>
   (SaveTxt f X fmt \<in> set (snd (hb_block l a pdb uni)) \<longrightarrow> fmt = ''%.1f'' \<and> hb_graph a = Some f) \<and>
   (SaveTxt f X fmt \<in> set (snd (kbp_block l a pdb uni)) \<longrightarrow> fmt = ''%.3f'' \<and> kbp_graph a = Some f)"
proof (intro conjI impI)
  assume "SaveTxt f X fmt \<in> set (snd (hc_block l a pdb uni))"
  then show "fmt = ''%.1f''" "hc_graph a = Some f"
    by (auto simp: hc_block_def block_defs split: sum.splits option.splits prod.splits if_splits)
next
  assume "SaveTxt f X fmt \<in> set (snd (sb_analysis l a pdb uni cgs))"
  then show "fmt = ''%.1f''" "sb_graph a = Some f"
    by (auto simp: sb_analysis_def block_defs split: sum.splits option.splits prod.splits if_splits)
next
  assume "SaveTxt f X fmt \<in> set (snd (hb_block l a pdb uni))"
  then show "fmt = ''%.1f''" "hb_graph a = Some f"
    by (auto simp: hb_block_def block_defs split: sum.splits option.splits prod.splits if_splits)
next
  assume "SaveTxt f X fmt \<in> set (snd (kbp_block l a pdb uni))"
  then show "fmt = ''%.3f''" "kbp_graph a = Some f"
    by (auto simp: kbp_block_def block_defs split: sum.splits option.splits prod.splits if_splits)
qed



theorem matrix_formats_witness:
  "(SaveTxt ''hc-graph.dat'' example_matrix ''%.1f'' \<in> set (snd (hc_block example_lib example_args () ())) \<and>
    hc_graph example_args = Some ''hc-graph.dat'') \<and>
   (SaveTxt ''sb-graph.dat'' example_matrix ''%.1f'' \<in> set (snd (sb_analysis example_lib example_args () () [])) \<and>
    sb_graph example_args = Some ''sb-graph.dat'') \<and>
   (SaveTxt ''hb-graph.dat'' example_matrix ''%.1f'' \<in> set (snd (hb_block example_lib example_args () ())) \<and>
    hb_graph example_args = Some ''hb-graph.dat'') \<and>
   (SaveTxt ''kbp-graph.dat'' example_matrix ''%.3f'' \<in> set (snd (kbp_block example_lib example_args () ())) \<and>
    kbp_graph example_args = Some ''kbp-graph.dat'')"
proof -
  have hc: "SaveTxt ''hc-graph.dat'' example_matrix ''%.1f'' \<in> set (snd (hc_block example_lib example_args () ()))"
    by (simp add: run_eval)
  have sb: "SaveTxt ''sb-graph.dat'' example_matrix ''%.1f'' \<in> set (snd (sb_analysis example_lib example_args () () []))"
    by (simp add: run_eval sb_analysis_def)
  have hb: "SaveTxt ''hb-graph.dat'' example_matrix ''%.1f'' \<in> set (snd (hb_block example_lib example_args () ()))"
    by (simp add: run_eval string_eval)
  have kbp: "SaveTxt ''kbp-graph.dat'' example_matrix ''%.3f'' \<in> set (snd (kbp_block example_lib example_args () ()))"
    by (simp add: run_eval)
  from hc matrix_formats [of "''hc-graph.dat''" example_matrix "''%.1f''" example_lib example_args "()" "()"]
  have 1: "hc_graph example_args = Some ''hc-graph.dat''" by blast
  from sb matrix_formats [of "''sb-graph.dat''" example_matrix "''%.1f''" example_lib example_args "()" "()" "[]"]
  have 2: "sb_graph example_args = Some ''sb-graph.dat''" by blast
  from hb matrix_formats [of "''hb-graph.dat''" example_matrix "''%.1f''" example_lib example_args "()" "()"]
  have 3: "hb_graph example_args = Some ''hb-graph.dat''" by blast
  from kbp matrix_formats [of "''kbp-graph.dat''" example_matrix "''%.3f''" example_lib example_args "()" "()"]
  have 4: "kbp_graph example_args = Some ''kbp-graph.dat''" by blast
  from hc sb hb kbp 1 2 3 4 show ?thesis by blast
qed

subsection \<open>The mode of the salt-bridges analysis\<close>

text \<open>
  What the script sets out to do with the mode: the argument parser accepts
  \<open>different_charge\<close>, the default, \<open>same_charge\<close> and \<open>all\<close> only and exits with
  status 2 on any other value; the \<open>if\<close>/\<open>elif\<close> chain renames them to \<open>diff\<close>,
  \<open>same\<close> and \<open>both\<close>; the statements of the section that follow its call of
  \<open>parse_cgs_file\<close> hand the renamed mode to the library.
\<close>

lemma sb_section_translates_mode:
  "sbmode_default = ''different_charge'' \<and>
   translate_cgs_mode ''different_charge'' = ''diff'' \<and>
   translate_cgs_mode ''same_charge'' = ''same'' \<and>
   translate_cgs_mode ''all'' = ''both'' \<and>
   (parse_args masses_files sb_mode hb_class_given ff_masses rest = Inr a \<longrightarrow>
      cgs_mode a \<in> {''different_charge'', ''same_charge'', ''all''} \<and>
      cgs_mode a = (case sb_mode of None \<Rightarrow> ''different_charge'' | Some m \<Rightarrow> m) \<and>
      translate_cgs_mode (cgs_mode a) \<in> {''diff'', ''same'', ''both''}) \<and>
   (sb_mode = Some m \<and> m \<notin> {''different_charge'', ''same_charge'', ''all''} \<longrightarrow>
      parse_args masses_files sb_mode hb_class_given ff_masses rest = Inl (SystemExit 2)) \<and>
   map ia_mindist_mode (interact_calls (snd (sb_analysis l a pdb uni cgs)))
     = [Some (translate_cgs_mode (cgs_mode a))]"
proof (intro conjI impI)
  show "map ia_mindist_mode (interact_calls (snd (sb_analysis l a pdb uni cgs)))
     = [Some (translate_cgs_mode (cgs_mode a))]"
    by (simp add: sb_analysis_def block_defs split: sum.splits option.splits prod.splits)
next
  assume "sb_mode = Some m \<and> m \<notin> {''different_charge'', ''same_charge'', ''all''}"
  then show "parse_args masses_files sb_mode hb_class_given ff_masses rest = Inl (SystemExit 2)"
    by (simp add: parse_args_def choice_arg_def sbmode_choices_def)
next
  assume p: "parse_args masses_files sb_mode hb_class_given ff_masses rest = Inr a"
  then have c: "choice_arg sbmode_choices sbmode_default sb_mode = Inr (cgs_mode a)"
    by (auto simp: parse_args_def split: sum.splits)
  from c show m: "cgs_mode a \<in> {''different_charge'', ''same_charge'', ''all''}"
    by (auto simp: choice_arg_def sbmode_choices_def sbmode_default_def split: option.splits if_splits)
  from c show "cgs_mode a = (case sb_mode of None \<Rightarrow> ''different_charge'' | Some m \<Rightarrow> m)"
    by (auto simp: choice_arg_def sbmode_choices_def sbmode_default_def split: option.splits if_splits)
  from m show "translate_cgs_mode (cgs_mode a) \<in> {''diff'', ''same'', ''both''}"
    by (auto simp: translate_cgs_mode_def)
qed (simp_all add: sbmode_default_def translate_cgs_mode_def)

text \<open>
  The salt-bridges section as the script has it: its first statement is the call of
  \<open>parse_cgs_file\<close>, which raises on every file, so the section ends there, with
  no mode renamed and no call of the library.
\<close>

lemma sb_block_never_scans:
  "snd (sb_block l a pdb uni) = [] \<and> (do_sb a \<longrightarrow> fst (sb_block l a pdb uni) \<noteq> Inr ())"
  using parse_cgs_file_never_returns [of "cfg_read l" "cgs_file a"]
  by (auto simp: sb_block_def split: sum.splits)

text \<open>
  C7. The salt-bridges analysis should hand the command-line mode to the library as
  \<open>diff\<close>, \<open>same\<close> or \<open>both\<close>. On the command line \<open>--sb-mode all\<close> with the
  salt bridges requested and a well-formed charged-groups file, the argument
  parser accepts the mode, and the run ends with \<open>TypeError\<close> in
  \<open>parse_cgs_file\<close>, before the renaming: the only call of the library is the one
  of the hydrophobic contacts, without a mode, and \<open>both\<close> reaches no call.
\<close>

theorem sb_mode_never_reaches_library:
  "parse_args [''charmm27''] (Some ''all'') None None (example_args\<lparr>do_sb := True\<rparr>)
     = Inr example_sb_args \<and>
   translate_cgs_mode (cgs_mode example_sb_args) = ''both'' \<and>
   sb_block example_lib example_sb_args () () = (Inl TypeError, []) \<and>
   fst (pyinteraph example_lib (Some ''all'') None None (example_args\<lparr>do_sb := True\<rparr>))
     = Inl TypeError \<and>
   map ia_mindist_mode
     (interact_calls
        (snd (pyinteraph example_lib (Some ''all'') None None (example_args\<lparr>do_sb := True\<rparr>))))
     = [None]"
  by (simp add: example_sb_args_def translate_cgs_mode_def run_eval parse_cgs_file_def
        cgs_eval string_eval)

subsection \<open>The custom groups of the hydrogen-bond analysis\<close>



lemma script_loaded:
  "top_file a = Some t \<Longrightarrow> trj a = Some j \<Longrightarrow>
   loadsys l (case ref a of None \<Rightarrow> t | Some r \<Rightarrow> r) t j = Inr (pdb, uni) \<Longrightarrow>
   script l a = analyses l a pdb uni"
  by (simp add: script_def)





subsection \<open>A configuration error and the output written before it\<close>

lemma parse_cgs_file_bad:
  assumes "cgs_file_bad rd fname"
  shows "\<exists>e. parse_cgs_file rd fname = Inl e \<and> exit_status (Inl e :: error + unit) = 1"
proof (cases "rd fname")
  case (Inl e)
  then have "parse_cgs_file rd fname = Inl (SystemExit 1)"
    by (simp add: parse_cgs_file_def)
  then show ?thesis by simp
next
  case (Inr cfg)
  show ?thesis
  proof (cases "map_of cfg grps_str")
    case None
    with Inr have "parse_cgs_file rd fname = Inl NoSectionError"
      by (simp add: parse_cgs_file_def cfg_options_def)
    then show ?thesis by simp
  next
    case (Some opts)
    with Inr assms have "default_grps_str \<notin> set (map fst opts)"
      by (simp add: cgs_file_bad_def cfg_options_def)
    with Inr Some have "parse_cgs_file rd fname = Inl ValueError"
      by (simp add: parse_cgs_file_def cfg_options_def list_remove_def)
    then show ?thesis by simp
  qed
qed

lemma files_after_keys:
  "fst ` set (files_after es fs) = fst ` set fs \<union> set (written es)"
  by (induction es fs rule: files_after.induct) (simp_all add: dom_update Un_ac insert_commute)

lemma written_hc_block:
  "set (written (snd (hc_block l a pdb uni))) \<subseteq> {hc_dat a} \<union> set_option (hc_graph a)"
  by (cases "do_hc a")
     (simp_all add: hc_block_def block_defs del: not_None_eq
        split: sum.splits option.splits prod.splits split del: if_split)

lemma written_hc_block_dat:
  "do_hc a \<Longrightarrow> fst (hc_block l a pdb uni) = Inr () \<Longrightarrow>
   hc_dat a \<in> set (written (snd (hc_block l a pdb uni)))"
  by (simp add: hc_block_def block_defs del: not_None_eq
        split: sum.splits option.splits prod.splits split del: if_split)

text \<open>
  C2, as the specification states it: after a run that fails on a configuration
  error, no output has been written. With the hydrophobic contacts and the salt
  bridges both requested and a charged-groups file that is not in INI format, the
  run ends with status 1, and the two files of the hydrophobic contacts exist.
\<close>

theorem partial_output_counterexample:
  "do_hc failing_args \<and> do_sb failing_args \<and>
   cgs_file_bad (cfg_read example_lib) (cgs_file failing_args) \<and>
   exit_status (fst (script example_lib failing_args)) = 1 \<and>
   files_after (snd (script example_lib failing_args)) [] =
     [(''hydrophobic-clusters.dat'', Text ''A-3ALA A-7LEU 80.0''),
      (''hc-graph.dat'', Numbers ''%.1f'' example_matrix)]"
  by (simp add: failing_args_def cgs_file_bad_def parse_cgs_file_def run_eval)

text \<open>
  C2, amended. When the salt-bridges analysis is requested and the charged-groups
  file has a configuration error (not in INI format, no section
  \<open>CHARGED_GROUPS\<close>, or no key \<open>default_charged_groups\<close>), and the
  hydrophobic-contacts section before it has completed, the program ends with
  status 1 and its effects are exactly those of the hydrophobic-contacts section:
  the salt-bridges analysis and the analyses after it neither scan nor write, and
  the only files written are the hydrophobic-contacts list, which exists when that
  analysis was requested, and its graph file.
\<close>

theorem cgs_error_keeps_earlier_output:
  assumes sb: "do_sb a"
    and bad: "cgs_file_bad (cfg_read l) (cgs_file a)"
    and top: "top_file a = Some t" and trj: "trj a = Some j"
    and load: "loadsys l (case ref a of None \<Rightarrow> t | Some r \<Rightarrow> r) t j = Inr (pdb, uni)"
    and hc: "fst (hc_block l a pdb uni) = Inr ()"
  shows "exit_status (fst (script l a)) = 1 \<and>
         snd (script l a) = snd (hc_block l a pdb uni) \<and>
         fst ` set (files_after (snd (script l a)) []) \<subseteq> {hc_dat a} \<union> set_option (hc_graph a) \<and>
         (do_hc a \<longrightarrow> hc_dat a \<in> fst ` set (files_after (snd (script l a)) []))"
proof -
  obtain e where e: "parse_cgs_file (cfg_read l) (cgs_file a) = Inl e"
      "exit_status (Inl e :: error + unit) = 1"
    using parse_cgs_file_bad [OF bad] by blast
  have b: "sb_block l a pdb uni = (Inl e, [])"
    using sb e by (simp add: sb_block_def)
  have s: "script l a = analyses l a pdb uni"
    using top trj load by (rule script_loaded)
  have r: "analyses l a pdb uni = (Inl e, snd (hc_block l a pdb uni))"
    by (simp add: analyses_def and_then_def hc b)
  have k: "fst ` set (files_after (snd (hc_block l a pdb uni)) []) \<subseteq> {hc_dat a} \<union> set_option (hc_graph a)"
    using written_hc_block [of l a pdb uni] by (simp add: files_after_keys)
  have d: "do_hc a \<longrightarrow> hc_dat a \<in> fst ` set (files_after (snd (hc_block l a pdb uni)) [])"
    using written_hc_block_dat [OF _ hc] by (simp add: files_after_keys)
  show ?thesis
    using e k d by (simp add: s r)
qed

theorem cgs_error_keeps_earlier_output_witness:
  "do_sb failing_args \<and> cgs_file_bad (cfg_read example_lib) (cgs_file failing_args) \<and>
   fst (hc_block example_lib failing_args () ()) = Inr () \<and>
   exit_status (fst (script example_lib failing_args)) = 1 \<and>
   snd (script example_lib failing_args) = snd (hc_block example_lib failing_args () ()) \<and>
   hc_dat failing_args \<in> fst ` set (files_after (snd (script example_lib failing_args)) [])"
proof -
  have 1: "do_sb failing_args"
    by (simp add: failing_args_def example_args_def)
  have 2: "cgs_file_bad (cfg_read example_lib) (cgs_file failing_args)"
    by (simp add: failing_args_def example_args_def example_lib_def cgs_file_bad_def)
  have 3: "top_file failing_args = Some ''sim.prot.gro''"
    by (simp add: failing_args_def example_args_def)
  have 4: "trj failing_args = Some ''traj.xtc''"
    by (simp add: failing_args_def example_args_def)
  have 5: "loadsys example_lib (case ref failing_args of None \<Rightarrow> ''sim.prot.gro'' | Some r \<Rightarrow> r)
             ''sim.prot.gro'' ''traj.xtc'' = Inr ((), ())"
    by (simp add: example_lib_def)
  have 6: "fst (hc_block example_lib failing_args () ()) = Inr ()"
    by (simp add: failing_args_def run_eval)
  have 7: "do_hc failing_args"
    by (simp add: failing_args_def example_args_def)
  note t = cgs_error_keeps_earlier_output [OF 1 2 3 4 5 6]
  from 1 2 6 7 t show ?thesis by blast
qed

subsection \<open>The constructor of the sparse table\<close>

lemma sqrt6: "sqrt 6 \<noteq> 6"
proof
  assume "sqrt 6 = 6"
  then have "(sqrt 6)\<^sup>2 = 6\<^sup>2" by simp
  then show False by simp
qed

text \<open>
  C3, as the specification states it: the object built from a record of ten values
  has the 7th value as its cutoff radius. On the record of the test suite,
  \<open>0, 1, ..., 9\<close>, the cutoff of the object is the square root of 6, not 6, and the
  object with the cutoff 6 fails \<open>test_Sparse_constructor\<close>, which compares the 7th
  value with \<open>cutoff**2\<close>.
\<close>

theorem sparse_cutoff_counterexample:
  "(case Sparse sparse_list of Inl e \<Rightarrow> False | Inr s \<Rightarrow> cutoff s \<noteq> sparse_list ! 6) \<and>
   \<not> test_Sparse_constructor sparse_list (Sparse_as_specified sparse_list)"
  by (simp add: Sparse_def sparse_list_def sqrt6 test_Sparse_constructor_def
        Sparse_as_specified_def assert_almost_equal_def)

text \<open>
  C3, amended. For a record of ten values with a non-negative 7th and a non-zero
  8th value, the object holds the values 1 to 6 as \<open>r1\<close>, \<open>r2\<close> and the four
  reference-probability parameters, the square root of the 7th value as its cutoff
  radius (the 7th value is the squared cutoff), the reciprocal of the 8th value as
  its step, the 9th as the total count and the 10th as the number of bins; its bin
  mapping is empty, and it passes \<open>test_Sparse_constructor\<close>.
\<close>

theorem sparse_constructor_fields:
  assumes len: "length lst = 10" and nonneg: "0 \<le> lst ! 6" and nonzero: "lst ! 7 \<noteq> 0"
  shows "case Sparse lst of
           Inl e \<Rightarrow> False
         | Inr s \<Rightarrow>
             r1 s = lst ! 0 \<and> r2 s = lst ! 1 \<and>
             p1_1 s = lst ! 2 \<and> p1_2 s = lst ! 3 \<and> p2_1 s = lst ! 4 \<and> p2_2 s = lst ! 5 \<and>
             cutoff s = sqrt (lst ! 6) \<and> (cutoff s)\<^sup>2 = lst ! 6 \<and>
             step s = 1 / (lst ! 7) \<and> total s = lst ! 8 \<and> num s = lst ! 9 \<and>
             bins s = [] \<and> test_Sparse_constructor lst s"
proof -
  obtain a b c d e f g h i j where l: "lst = [a, b, c, d, e, f, g, h, i, j]"
    using len by (auto simp: length_Suc_conv eval_nat_numeral)
  show ?thesis
    using nonneg nonzero
    by (simp add: l Sparse_def test_Sparse_constructor_def assert_almost_equal_def)
qed

theorem sparse_constructor_fields_witness:
  "length sparse_list = 10 \<and> 0 \<le> sparse_list ! 6 \<and> sparse_list ! 7 \<noteq> 0 \<and>
   (case Sparse sparse_list of
      Inl e \<Rightarrow> False
    | Inr s \<Rightarrow> (cutoff s)\<^sup>2 = 6 \<and> step s = 1 / 7 \<and> total s = 8 \<and> num s = 9 \<and>
        test_Sparse_constructor sparse_list s)"
proof -
  have 1: "length sparse_list = 10" by (simp add: sparse_list_def)
  have 2: "0 \<le> sparse_list ! 6" by (simp add: sparse_list_def)
  have 3: "sparse_list ! 7 \<noteq> 0" by (simp add: sparse_list_def)
  from sparse_constructor_fields [OF 1 2 3] 1 2 3 show ?thesis
    by (auto simp: sparse_list_def split: sum.splits)
qed

subsection \<open>Adding a bin to the sparse table\<close>

lemma length_update:
  "length (AList.update k v al) = (if k \<in> fst ` set al then length al else Suc (length al))"
  by (induct al) auto

text \<open>
  C9. For a bin record of five elements, four strings and a value, \<open>add_bin\<close>
  returns, and the bin mapping afterwards is the mapping before with one entry
  added: the concatenation of the four strings as key, the fifth element as value.
  Looking the key up gives that value; the mapping has one entry more when the key
  is new, and exactly one entry when the object is as constructed.
\<close>

theorem add_bin_adds_entry:
  assumes bin: "bin = [Str a, Str b, Str c, Str d, v]"
  shows "case add_bin bin s of
           Inl e \<Rightarrow> False
         | Inr s' \<Rightarrow>
             bins s' = AList.update (a @ b @ c @ d) v (bins s) \<and>
             map_of (bins s') = (map_of (bins s))(a @ b @ c @ d \<mapsto> v) \<and>
             dict_get (bins s') (a @ b @ c @ d) = Inr v \<and>
             (a @ b @ c @ d \<notin> set (dict_keys (bins s)) \<longrightarrow>
                length (bins s') = length (bins s) + 1) \<and>
             (bins s = [] \<longrightarrow> length (bins s') = 1)"
  by (auto simp: bin add_bin_def dict_get_def dict_keys_def update_conv' length_update)

theorem add_bin_adds_entry_witness:
  "sparse_bin = [Str ''a'', Str ''b'', Str ''c'', Str ''d'', Num 1] \<and>
   (case add_bin sparse_bin (Sparse_as_specified sparse_list) of
      Inl e \<Rightarrow> False
    | Inr s' \<Rightarrow> bins s' = [(''abcd'', Num 1)] \<and> dict_get (bins s') ''abcd'' = Inr (Num 1) \<and>
        length (bins s') = 1)"
  using add_bin_adds_entry [of sparse_bin "''a''" "''b''" "''c''" "''d''" "Num 1" "Sparse_as_specified sparse_list"]
  by (auto simp: sparse_bin_def Sparse_as_specified_def split: sum.splits)

end
